theory Spec2Isabelle
  imports Complex_Main "HOL-Library.Sublist"
begin

section \<open>JavaScript values used by the outcome classifier\<close>

text \<open>
  The classifier lives in \<^verbatim>\<open>netlify/functions/predictions.js\<close> (two copies in the
  repository; the longer one also has \<^verbatim>\<open>determineBTTS\<close> and \<^verbatim>\<open>determineExactScore\<close>,
  the functions they share are identical). It reads fields of the upstream JSON payload
  and computes with JavaScript numbers, so both are made explicit here.
\<close>

subsection \<open>Numbers\<close>

text \<open>
  A JavaScript number is an IEEE binary64 value. \<open>Fin q\<close> is the finite double whose exact
  value is the rational \<open>q\<close>; the two zeros are identified (no operation used by the
  classifier tells them apart: comparisons, \<^verbatim>\<open>Math.max\<close>/\<^verbatim>\<open>Math.min\<close> against
  non-zero bounds, and string conversion, which prints both as \<^verbatim>\<open>0\<close>).
\<close>

datatype jsnum = NaN | NegInf | Fin rat | PosInf

text \<open>The relational operators: every comparison with \<open>NaN\<close> is false.\<close>

fun js_lt :: "jsnum \<Rightarrow> jsnum \<Rightarrow> bool" where
  "js_lt NaN _ = False"
| "js_lt _ NaN = False"
| "js_lt _ NegInf = False"
| "js_lt NegInf _ = True"
| "js_lt PosInf _ = False"
| "js_lt (Fin x) (Fin y) = (x < y)"
| "js_lt (Fin x) PosInf = True"

definition js_gt :: "jsnum \<Rightarrow> jsnum \<Rightarrow> bool" where
  "js_gt a b = js_lt b a"

definition js_le :: "jsnum \<Rightarrow> jsnum \<Rightarrow> bool" where
  "js_le a b = (a \<noteq> NaN \<and> b \<noteq> NaN \<and> \<not> js_lt b a)"

definition js_ge :: "jsnum \<Rightarrow> jsnum \<Rightarrow> bool" where
  "js_ge a b = js_le b a"

text \<open>\<^verbatim>\<open>Math.max\<close> and \<^verbatim>\<open>Math.min\<close>: \<open>NaN\<close> as soon as one argument is \<open>NaN\<close>.\<close>

definition js_max2 :: "jsnum \<Rightarrow> jsnum \<Rightarrow> jsnum" where
  "js_max2 a b = (if a = NaN \<or> b = NaN then NaN else if js_lt a b then b else a)"

definition js_min2 :: "jsnum \<Rightarrow> jsnum \<Rightarrow> jsnum" where
  "js_min2 a b = (if a = NaN \<or> b = NaN then NaN else if js_lt b a then b else a)"

definition Math_max :: "jsnum list \<Rightarrow> jsnum" where
  "Math_max xs = foldl js_max2 NegInf xs"

definition Math_min :: "jsnum list \<Rightarrow> jsnum" where
  "Math_min xs = foldl js_min2 PosInf xs"

text \<open>
  \<^verbatim>\<open>Math.round\<close>: the nearest integer, a tie going towards \<open>+\<infinity>\<close>. The result is
  exact: a double below \<open>2^52\<close> in magnitude rounds to a representable integer, a larger
  one is an integer already.
\<close>

fun Math_round :: "jsnum \<Rightarrow> jsnum" where
  "Math_round (Fin q) = Fin (of_int \<lfloor>q + 1 / 2\<rfloor>)"
| "Math_round x = x"

text \<open>
  Rounding an exact rational to the nearest double, ties to even: the number a decimal
  literal of the source (\<^verbatim>\<open>0.8\<close>, \<^verbatim>\<open>1.2\<close>) denotes, and the number \<^verbatim>\<open>parseInt\<close> and
  \<^verbatim>\<open>parseFloat\<close> return for the digits they read. (Beyond 20 significant digits ECMAScript
  lets an implementation approximate; the model rounds the exact value, as V8 does.)
\<close>

function bit_length :: "int \<Rightarrow> int" where
  "bit_length n = (if n \<le> 0 then 0 else 1 + bit_length (n div 2))"
  by auto

termination
  by (relation "measure nat") auto

declare bit_length.simps [simp del]

definition ilog2 :: "rat \<Rightarrow> int" where
  \<comment> \<open>\<open>\<lfloor>log\<^sub>2 q\<rfloor>\<close> for \<open>q > 0\<close>, from the bit lengths of numerator and denominator\<close>
  "ilog2 q = (let (n, d) = quotient_of q;
                  k = bit_length n - bit_length d
              in if 2 powi k \<le> q then k else k - 1)"

definition round_half_even :: "rat \<Rightarrow> int" where
  "round_half_even q = (let f = \<lfloor>q\<rfloor>; r = q - of_int f
     in if r < 1 / 2 then f else if 1 / 2 < r then f + 1 else if even f then f else f + 1)"

definition to_double :: "rat \<Rightarrow> jsnum" where
  "to_double q = (if q = 0 then Fin 0 else
     let a = \<bar>q\<bar>;
         e = max (ilog2 a - 52) (- 1074);
         m = round_half_even (a / 2 powi e);
         v = of_int m * 2 powi e
     in if of_int (2 ^ 1024) \<le> v then (if 0 < q then PosInf else NegInf) else Fin (sgn q * v))"

subsection \<open>Strings\<close>

text \<open>
  Strings are lists of characters, a character standing for a UTF-16 code unit below
  256 (team names and payload texts outside that range are not described).
  \<^verbatim>\<open>s.includes(t)\<close> is substring containment,
  \<^verbatim>\<open>s.replace(p, r)\<close> with a string pattern replaces the first occurrence only (the
  classifier's replacement text is empty, so \<^verbatim>\<open>$\<close>-patterns do not arise).
\<close>

fun js_includes :: "string \<Rightarrow> string \<Rightarrow> bool" where
  "js_includes [] t = (t = [])"
| "js_includes (c # cs) t = (prefix t (c # cs) \<or> js_includes cs t)"

fun js_replace :: "string \<Rightarrow> string \<Rightarrow> string \<Rightarrow> string" where
  "js_replace [] p r = (if p = [] then r else [])"
| "js_replace (c # cs) p r =
     (if prefix p (c # cs) then r @ drop (length p) (c # cs) else c # js_replace cs p r)"

definition js_whitespace :: "char \<Rightarrow> bool" where
  \<comment> \<open>tab, line feed, vertical tab, form feed, carriage return, space, no-break space\<close>
  "js_whitespace c = (c \<in> set [CHR 0x09, CHR 0x0A, CHR 0x0B, CHR 0x0C, CHR 0x0D, CHR 0x20, CHR 0xA0])"

fun index_of :: "'a \<Rightarrow> 'a list \<Rightarrow> nat option" where
  "index_of x [] = None"
| "index_of x (y # ys) = (if x = y then Some 0 else map_option Suc (index_of x ys))"

definition digit_of :: "char \<Rightarrow> int option" where
  "digit_of c = (case index_of c ''0123456789abcdefghijklmnopqrstuvwxyz'' of
       Some i \<Rightarrow> Some (int i)
     | None \<Rightarrow> map_option (\<lambda>i. int i + 10) (index_of c ''ABCDEFGHIJKLMNOPQRSTUVWXYZ''))"

fun take_digits :: "int \<Rightarrow> string \<Rightarrow> int list" where
  "take_digits R [] = []"
| "take_digits R (c # cs) =
     (case digit_of c of
        Some d \<Rightarrow> if d < R then d # take_digits R cs else []
      | None \<Rightarrow> [])"

definition digits_value :: "int \<Rightarrow> int list \<Rightarrow> int" where
  "digits_value R ds = foldl (\<lambda>acc d. acc * R + d) 0 ds"

text \<open>
  \<^verbatim>\<open>parseInt(s)\<close> with no radix: skip leading white space, read a sign, switch to radix
  16 after \<^verbatim>\<open>0x\<close>/\<^verbatim>\<open>0X\<close>, read the longest run of digits and ignore the rest. With no
  digit at all the result is \<open>NaN\<close>; \<^verbatim>\<open>parseInt\<close> never throws on a string.
\<close>

definition parseInt :: "string \<Rightarrow> jsnum" where
  "parseInt str =
     (let s = dropWhile js_whitespace str;
          (sg, s1) = (case s of
                        [] \<Rightarrow> (1, s)
                      | c # cs \<Rightarrow> if c = CHR ''-'' then (- 1, cs)
                                 else if c = CHR ''+'' then (1, cs) else (1, s));
          (R, s2) = (if take 2 s1 = ''0x'' \<or> take 2 s1 = ''0X'' then (16, drop 2 s1) else (10, s1));
          ds = take_digits R s2
      in if ds = [] then NaN else to_double (sg * of_int (digits_value R ds)))"

subsection \<open>Payload values\<close>

text \<open>
  The fields the classifier reads are, in the upstream payload, strings, \<^verbatim>\<open>null\<close>,
  missing (\<^verbatim>\<open>undefined\<close>) or nested objects. An object is its list of own properties;
  a lookup takes the first binding of a key.
\<close>

datatype jsval = Undefined | Null | Str string | Obj "(string \<times> jsval) list"

datatype js_error = TypeError

text \<open>Calling \<^verbatim>\<open>v.replace('%', '')\<close>: only a string has the method.\<close>

fun call_replace :: "jsval \<Rightarrow> string \<Rightarrow> string \<Rightarrow> js_error + string" where
  "call_replace (Str s) p r = Inr (js_replace s p r)"
| "call_replace _ p r = Inl TypeError"

section \<open>The outcome rule\<close>

text \<open>
  The object \<^verbatim>\<open>{ prediction, text }\<close> that \<^verbatim>\<open>determinePrediction\<close> returns; its
  \<^verbatim>\<open>text\<close> is the field \<open>prediction_text\<close>, the name the caller gives it.
\<close>

record prediction_result =
  prediction :: string
  prediction_text :: string

definition bigClubs :: "string list" where
  "bigClubs = [''Al Ahly'', ''Zamalek'', ''Zamalek SC'', ''Pyramids FC'']"

text \<open>The body of the \<^verbatim>\<open>try\<close> block of \<^verbatim>\<open>determinePrediction\<close>; \<open>Inl\<close> is a thrown exception.\<close>

definition determinePrediction_body ::
  "jsval \<Rightarrow> jsval \<Rightarrow> jsval \<Rightarrow> string \<Rightarrow> string \<Rightarrow> js_error + prediction_result" where
  "determinePrediction_body homePct awayPct drawPct homeName awayName =
     (case call_replace homePct ''%'' '''' of Inl e \<Rightarrow> Inl e | Inr hs \<Rightarrow>
      case call_replace awayPct ''%'' '''' of Inl e \<Rightarrow> Inl e | Inr as \<Rightarrow>
      case call_replace drawPct ''%'' '''' of Inl e \<Rightarrow> Inl e | Inr ds \<Rightarrow>
      let home = parseInt hs; away = parseInt as; draw = parseInt ds in
      Inr (if js_ge home (Fin 45) \<and> js_le away (Fin 10) then
             \<lparr>prediction = ''1'', prediction_text = homeName @ '' gagne''\<rparr>
           else if js_ge away (Fin 45) \<and> js_le home (Fin 10) then
             (if list_ex (\<lambda>club. js_includes homeName club) bigClubs then
                \<lparr>prediction = ''1X'', prediction_text = ''DC '' @ homeName\<rparr>
              else \<lparr>prediction = ''2'', prediction_text = awayName @ '' gagne''\<rparr>)
           else if js_ge home (Fin 35) \<and> js_ge draw (Fin 35) then
             \<lparr>prediction = ''1X'', prediction_text = ''DC '' @ homeName\<rparr>
           else if js_ge away (Fin 35) \<and> js_ge draw (Fin 35) then
             \<lparr>prediction = ''X2'', prediction_text = ''DC '' @ awayName\<rparr>
           else if js_ge draw (Fin 40) then
             \<lparr>prediction = ''X'', prediction_text = ''Match Nul probable''\<rparr>
           else if js_gt home away then
             \<lparr>prediction = ''1X'', prediction_text = ''DC '' @ homeName\<rparr>
           else \<lparr>prediction = ''X2'', prediction_text = ''DC '' @ awayName\<rparr>))"

text \<open>The \<^verbatim>\<open>catch\<close> clause turns every exception into the default result.\<close>

definition determinePrediction ::
  "jsval \<Rightarrow> jsval \<Rightarrow> jsval \<Rightarrow> string \<Rightarrow> string \<Rightarrow> prediction_result" where
  "determinePrediction homePct awayPct drawPct homeName awayName =
     (case determinePrediction_body homePct awayPct drawPct homeName awayName of
        Inl e \<Rightarrow> \<lparr>prediction = ''X'', prediction_text = ''Match Nul''\<rparr>
      | Inr r \<Rightarrow> r)"

text \<open>The percentage a string argument is parsed to.\<close>

definition parsed_pct :: "string \<Rightarrow> jsnum" where
  "parsed_pct s = parseInt (js_replace s ''%'' '''')"

text \<open>
  The decision table as the specification words it: an ordered list of rules, each a
  condition with its outcome, the first rule whose condition holds giving the result.
\<close>

fun first_match :: "(bool \<times> 'a) list \<Rightarrow> 'a \<Rightarrow> 'a" where
  "first_match [] dflt = dflt"
| "first_match ((c, r) # rules) dflt = (if c then r else first_match rules dflt)"

definition outcome_by_priority :: "jsnum \<Rightarrow> jsnum \<Rightarrow> jsnum \<Rightarrow> string \<Rightarrow> string" where
  "outcome_by_priority home away draw homeName =
     first_match
       [(js_ge home (Fin 45) \<and> js_le away (Fin 10), ''1''),
        (js_ge away (Fin 45) \<and> js_le home (Fin 10),
           if \<exists>club \<in> set bigClubs. js_includes homeName club then ''1X'' else ''2''),
        (js_ge home (Fin 35) \<and> js_ge draw (Fin 35), ''1X''),
        (js_ge away (Fin 35) \<and> js_ge draw (Fin 35), ''X2''),
        (js_ge draw (Fin 40), ''X'')]
       (if js_gt home away then ''1X'' else ''X2'')"

section \<open>The confidence tier\<close>

definition getConfidence_body :: "jsval \<Rightarrow> jsval \<Rightarrow> jsval \<Rightarrow> js_error + nat" where
  "getConfidence_body homePct awayPct drawPct =
     (case call_replace homePct ''%'' '''' of Inl e \<Rightarrow> Inl e | Inr hs \<Rightarrow>
      case call_replace awayPct ''%'' '''' of Inl e \<Rightarrow> Inl e | Inr as \<Rightarrow>
      case call_replace drawPct ''%'' '''' of Inl e \<Rightarrow> Inl e | Inr ds \<Rightarrow>
      let home = parseInt hs; away = parseInt as; draw = parseInt ds;
          maxProb = Math_max [home, away, draw]
      in Inr (if js_ge maxProb (Fin 50) then 4 else if js_ge maxProb (Fin 45) then 3 else 2))"

definition getConfidence :: "jsval \<Rightarrow> jsval \<Rightarrow> jsval \<Rightarrow> nat" where
  "getConfidence homePct awayPct drawPct =
     (case getConfidence_body homePct awayPct drawPct of Inl e \<Rightarrow> 2 | Inr n \<Rightarrow> n)"

text \<open>The tier as the specification gives it, from the maximum of the three percentages.\<close>

definition tier_of_max :: "rat \<Rightarrow> nat" where
  "tier_of_max m = (if 50 \<le> m then 4 else if 45 \<le> m then 3 else 2)"

definition max_pct :: "string \<Rightarrow> string \<Rightarrow> string \<Rightarrow> rat option" where
  \<comment> \<open>the maximum of the three parsed percentages of a well-formed triple\<close>
  "max_pct h a d = (case (parsed_pct h, parsed_pct a, parsed_pct d) of
       (Fin x, Fin y, Fin z) \<Rightarrow> Some (max x (max y z))
     | _ \<Rightarrow> None)"

section \<open>The over/under rule\<close>

text \<open>Truthiness, as \<^verbatim>\<open>if (v)\<close> and \<^verbatim>\<open>v || d\<close> test it.\<close>

fun truthy :: "jsval \<Rightarrow> bool" where
  "truthy Undefined = False"
| "truthy Null = False"
| "truthy (Str s) = (s \<noteq> [])"
| "truthy (Obj kvs) = True"

text \<open>
  \<^verbatim>\<open>String(v)\<close>. A plain object prints as \<^verbatim>\<open>[object Object]\<close> through the inherited
  \<^verbatim>\<open>toString\<close>; an own property of that name (never callable in parsed JSON) hides
  it, and the conversion throws.
\<close>

fun ToString :: "jsval \<Rightarrow> js_error + string" where
  "ToString Undefined = Inr ''undefined''"
| "ToString Null = Inr ''null''"
| "ToString (Str s) = Inr s"
| "ToString (Obj kvs) =
     (if List.member (map fst kvs) ''toString'' then Inl TypeError else Inr ''[object Object]'')"

definition String_includes :: "jsval \<Rightarrow> string \<Rightarrow> js_error + bool" where
  \<comment> \<open>\<^verbatim>\<open>String(v).includes(t)\<close>\<close>
  "String_includes v t = (case ToString v of Inl e \<Rightarrow> Inl e | Inr s \<Rightarrow> Inr (js_includes s t))"

fun call_includes :: "jsval \<Rightarrow> string \<Rightarrow> js_error + bool" where
  \<comment> \<open>\<^verbatim>\<open>v.includes(t)\<close>: only a string has the method\<close>
  "call_includes (Str s) t = Inr (js_includes s t)"
| "call_includes _ t = Inl TypeError"

definition or_else :: "js_error + bool \<Rightarrow> js_error + bool \<Rightarrow> js_error + bool" where
  \<comment> \<open>\<^verbatim>\<open>a || b\<close> on conditions that may throw: \<open>b\<close> counts only when \<open>a\<close> is false\<close>
  "or_else a b = (case a of Inl e \<Rightarrow> Inl e | Inr x \<Rightarrow> if x then Inr True else b)"

text \<open>
  The \<^verbatim>\<open>try\<close> block of \<^verbatim>\<open>determineOverUnder\<close>: \<open>Inr (Some l)\<close> when it returns the
  label \<open>l\<close>, \<open>Inr None\<close> when control leaves it without returning, \<open>Inl\<close> when it throws.
\<close>

definition determineOverUnder_goals :: "jsval \<Rightarrow> jsval \<Rightarrow> js_error + string option" where
  "determineOverUnder_goals goalsHome goalsAway =
     (if truthy goalsHome \<and> truthy goalsAway then
        (case or_else (String_includes goalsHome ''3.5'') (String_includes goalsAway ''3.5'') of
           Inl e \<Rightarrow> Inl e
         | Inr is_over \<Rightarrow>
            if is_over then Inr (Some ''Over 2.5'')
            else
              (case or_else (String_includes goalsHome ''2.5'') (String_includes goalsAway ''2.5'') of
                 Inl e \<Rightarrow> Inl e
               | Inr is_under \<Rightarrow> if is_under then Inr (Some ''Under 3.5'') else Inr None))
      else Inr None)"

text \<open>
  The whole function. The empty \<^verbatim>\<open>catch {}\<close> swallows an exception of the first block;
  the advice test is outside of it, so an exception there leaves the function.
\<close>

definition determineOverUnder :: "jsval \<Rightarrow> jsval \<Rightarrow> jsval \<Rightarrow> js_error + string" where
  "determineOverUnder goalsHome goalsAway advice =
     (case determineOverUnder_goals goalsHome goalsAway of
        Inr (Some label) \<Rightarrow> Inr label
      | _ \<Rightarrow>
        (if truthy advice then
           (case or_else (call_includes advice ''+2.5'') (call_includes advice ''+3.5'') of
              Inl e \<Rightarrow> Inl e
            | Inr is_over \<Rightarrow>
               if is_over then Inr ''Over 2.5''
               else
                 (case or_else (call_includes advice ''-2.5'') (call_includes advice ''-3.5'') of
                    Inl e \<Rightarrow> Inl e
                  | Inr is_under \<Rightarrow> if is_under then Inr ''Under 2.5'' else Inr ''Under 2.5''))
         else Inr ''Under 2.5''))"

text \<open>A text field is a string, \<^verbatim>\<open>null\<close> or missing; it contains what its string contains.\<close>

fun is_text :: "jsval \<Rightarrow> bool" where
  "is_text (Obj kvs) = False"
| "is_text v = True"

fun text_contains :: "jsval \<Rightarrow> string \<Rightarrow> bool" where
  "text_contains (Str s) t = js_includes s t"
| "text_contains v t = False"

section \<open>Team statistics\<close>

text \<open>
  \<^verbatim>\<open>v?.k\<close>: the property of an object, \<^verbatim>\<open>undefined\<close> when the object does not have
  it or when \<open>v\<close> is not an object (none of the keys read here is a property of a
  string). A chain \<^verbatim>\<open>v?.k1?.k2\<close> is a fold over the keys.
\<close>

fun get :: "jsval \<Rightarrow> string \<Rightarrow> jsval" where
  "get (Obj kvs) k = (case map_of kvs k of Some v \<Rightarrow> v | None \<Rightarrow> Undefined)"
| "get v k = Undefined"

definition opt_chain :: "jsval \<Rightarrow> string list \<Rightarrow> jsval" where
  "opt_chain v ks = foldl get v ks"

text \<open>
  \<^verbatim>\<open>parseFloat(s)\<close>: skip leading white space, read the longest prefix that is a decimal
  literal (sign, \<^verbatim>\<open>Infinity\<close> or digits with an optional fraction and exponent) and
  round its value to a double; \<open>NaN\<close> when there is no such prefix. It never throws on
  a string.
\<close>

definition is_digit :: "char \<Rightarrow> bool" where
  "is_digit c = (c \<in> set ''0123456789'')"

definition parseFloat :: "string \<Rightarrow> jsnum" where
  "parseFloat str =
     (let s = dropWhile js_whitespace str;
          (sg, s1) = (case s of
                        [] \<Rightarrow> (1, s)
                      | c # cs \<Rightarrow> if c = CHR ''-'' then (- 1, cs)
                                 else if c = CHR ''+'' then (1, cs) else (1, s))
      in if prefix ''Infinity'' s1 then (if sg = 1 then PosInf else NegInf)
         else
           let ip = takeWhile is_digit s1; r1 = dropWhile is_digit s1;
               (fp, r2) = (case r1 of
                             [] \<Rightarrow> ([], r1)
                           | c # cs \<Rightarrow> if c = CHR ''.''
                                      then (takeWhile is_digit cs, dropWhile is_digit cs)
                                      else ([], r1));
               ex = (case r2 of
                       [] \<Rightarrow> 0
                     | c # cs \<Rightarrow>
                         if c = CHR ''e'' \<or> c = CHR ''E'' then
                           (let (esg, r3) = (case cs of
                                  [] \<Rightarrow> (1, cs)
                                | d # ds \<Rightarrow> if d = CHR ''-'' then (- 1, ds)
                                           else if d = CHR ''+'' then (1, ds) else (1, cs));
                                eds = takeWhile is_digit r3
                            in if eds = [] then 0 else esg * digits_value 10 (take_digits 10 eds))
                         else 0)
           in if ip = [] \<and> fp = [] then NaN
              else to_double (sg * of_int (digits_value 10 (take_digits 10 (ip @ fp)))
                                 * 10 powi (ex - int (length fp))))"

text \<open>
  \<^verbatim>\<open>parseFloat(v || d)\<close> with a numeric literal \<open>d\<close>: a truthy \<open>v\<close> is converted to a
  string (which may throw) and parsed; otherwise the literal is printed and read back,
  which gives the double it denotes.
\<close>

definition parseFloat_or :: "jsval \<Rightarrow> rat \<Rightarrow> js_error + jsnum" where
  "parseFloat_or v d =
     (if truthy v then (case ToString v of Inl e \<Rightarrow> Inl e | Inr s \<Rightarrow> Inr (parseFloat s))
      else Inr (to_double d))"

section \<open>Both teams to score\<close>

definition determineBTTS_body :: "jsval \<Rightarrow> jsval \<Rightarrow> js_error + string" where
  "determineBTTS_body teams comparison =
     (case parseFloat_or (opt_chain teams [''home'', ''league'', ''goals'', ''for'', ''average'', ''total'']) 0 of
        Inl e \<Rightarrow> Inl e | Inr homeGoalsFor \<Rightarrow>
      case parseFloat_or (opt_chain teams [''away'', ''league'', ''goals'', ''for'', ''average'', ''total'']) 0 of
        Inl e \<Rightarrow> Inl e | Inr awayGoalsFor \<Rightarrow>
      case parseFloat_or (opt_chain teams [''home'', ''league'', ''goals'', ''against'', ''average'', ''total'']) 0 of
        Inl e \<Rightarrow> Inl e | Inr homeGoalsAgainst \<Rightarrow>
      case parseFloat_or (opt_chain teams [''away'', ''league'', ''goals'', ''against'', ''average'', ''total'']) 0 of
        Inl e \<Rightarrow> Inl e | Inr awayGoalsAgainst \<Rightarrow>
      Inr (if js_gt homeGoalsFor (to_double (8 / 10)) \<and> js_gt awayGoalsFor (to_double (8 / 10)) \<and>
              js_gt homeGoalsAgainst (to_double (8 / 10)) \<and>
              js_gt awayGoalsAgainst (to_double (8 / 10)) then ''Oui''
           else if js_lt homeGoalsAgainst (Fin (1 / 2)) \<or> js_lt awayGoalsAgainst (Fin (1 / 2))
             then ''Non''
           else if js_gt homeGoalsFor (Fin 1) \<and> js_gt awayGoalsFor (Fin 1) then ''Oui''
           else ''Non''))"

definition determineBTTS :: "jsval \<Rightarrow> jsval \<Rightarrow> string" where
  "determineBTTS teams comparison =
     (case determineBTTS_body teams comparison of Inl e \<Rightarrow> ''Non'' | Inr r \<Rightarrow> r)"

text \<open>
  The average the rule reads for a side (\<^verbatim>\<open>home\<close>, \<^verbatim>\<open>away\<close>) and a direction
  (\<^verbatim>\<open>for\<close>, \<^verbatim>\<open>against\<close>).
\<close>

definition total_average :: "jsval \<Rightarrow> string \<Rightarrow> string \<Rightarrow> js_error + jsnum" where
  "total_average teams side dir =
     parseFloat_or (opt_chain teams [side, ''league'', ''goals'', dir, ''average'', ''total'']) 0"

subsection \<open>An example payload\<close>

text \<open>An example payload: per side, the averages (home, away, total) for and against.\<close>

definition averages :: "string \<Rightarrow> string \<Rightarrow> string \<Rightarrow> jsval" where
  "averages h a t = Obj [(''home'', Str h), (''away'', Str a), (''total'', Str t)]"

definition team_stats :: "jsval \<Rightarrow> jsval \<Rightarrow> jsval" where
  "team_stats gf ga =
     Obj [(''league'', Obj [(''goals'',
        Obj [(''for'', Obj [(''average'', gf)]), (''against'', Obj [(''average'', ga)])])])]"

definition example_teams :: jsval where
  "example_teams =
     Obj [(''home'', team_stats (averages ''1.8'' ''1.2'' ''1.5'') (averages ''0.9'' ''1.1'' ''1.0'')),
          (''away'', team_stats (averages ''1.4'' ''1.0'' ''1.2'') (averages ''0.8'' ''1.0'' ''0.9''))]"

section \<open>The exact score\<close>

text \<open>Addition of numbers: the exact sum of two finite doubles, rounded.\<close>

fun js_add :: "jsnum \<Rightarrow> jsnum \<Rightarrow> jsnum" where
  "js_add NaN _ = NaN"
| "js_add _ NaN = NaN"
| "js_add PosInf NegInf = NaN"
| "js_add NegInf PosInf = NaN"
| "js_add PosInf _ = PosInf"
| "js_add _ PosInf = PosInf"
| "js_add NegInf _ = NegInf"
| "js_add _ NegInf = NegInf"
| "js_add (Fin x) (Fin y) = to_double (x + y)"

text \<open>
  Printing a number in a template literal. The scores printed by
  \<^verbatim>\<open>determineExactScore\<close> are rounded and clamped, so they are \<open>NaN\<close> or small
  integers (\<open>exact_goals_printed\<close> below): the decimal digits of the integer part are all
  that is needed, and the notations JavaScript uses for fractions and for numbers from
  \<open>10^21\<close> on are not described.
\<close>

function show_nat :: "nat \<Rightarrow> string" where
  "show_nat n = (if n < 10 then [''0123456789'' ! n]
                 else show_nat (n div 10) @ [''0123456789'' ! (n mod 10)])"
  by auto

termination
  by (relation "measure id") auto

declare show_nat.simps [simp del]

fun Number_toString :: "jsnum \<Rightarrow> string" where
  "Number_toString NaN = ''NaN''"
| "Number_toString PosInf = ''Infinity''"
| "Number_toString NegInf = ''-Infinity''"
| "Number_toString (Fin q) =
     (if q < 0 then ''-'' @ show_nat (nat (- \<lfloor>q\<rfloor>)) else show_nat (nat \<lfloor>q\<rfloor>))"

text \<open>
  The adjustment by outcome and the clamping, on the rounded averages: the goals of the
  home and of the away team that are printed.
\<close>

definition exact_goals :: "string \<Rightarrow> jsnum \<Rightarrow> jsnum \<Rightarrow> jsnum \<times> jsnum" where
  "exact_goals predicted homeGoals0 awayGoals0 =
     (let (homeGoals1, awayGoals1) =
            (if predicted = ''1'' \<or> predicted = ''1X'' then
               (Math_max [homeGoals0, js_add awayGoals0 (Fin 1)], awayGoals0)
             else if predicted = ''2'' \<or> predicted = ''X2'' then
               (homeGoals0, Math_max [awayGoals0, js_add homeGoals0 (Fin 1)])
             else if predicted = ''X'' then (homeGoals0, homeGoals0)
             else (homeGoals0, awayGoals0))
      in (Math_min [Math_max [homeGoals1, Fin 0], Fin 4],
          Math_min [Math_max [awayGoals1, Fin 0], Fin 3]))"

definition determineExactScore_body ::
  "string \<Rightarrow> jsval \<Rightarrow> jsval \<Rightarrow> jsval \<Rightarrow> js_error + string" where
  "determineExactScore_body predicted teams goalsHome goalsAway =
     (case parseFloat_or (opt_chain teams [''home'', ''league'', ''goals'', ''for'', ''average'', ''home''])
             (12 / 10) of
        Inl e \<Rightarrow> Inl e | Inr homeAvgFor \<Rightarrow>
      case parseFloat_or (opt_chain teams [''away'', ''league'', ''goals'', ''for'', ''average'', ''away''])
             (9 / 10) of
        Inl e \<Rightarrow> Inl e | Inr awayAvgFor \<Rightarrow>
      let (homeGoals, awayGoals) =
            exact_goals predicted (Math_round homeAvgFor) (Math_round awayAvgFor)
      in Inr (Number_toString homeGoals @ ''-'' @ Number_toString awayGoals))"

definition determineExactScore :: "string \<Rightarrow> jsval \<Rightarrow> jsval \<Rightarrow> jsval \<Rightarrow> string" where
  "determineExactScore predicted teams goalsHome goalsAway =
     (case determineExactScore_body predicted teams goalsHome goalsAway of
        Inl e \<Rightarrow> ''1-1'' | Inr r \<Rightarrow> r)"

text \<open>The two averages the score starts from.\<close>

definition home_average :: "jsval \<Rightarrow> js_error + jsnum" where
  "home_average teams =
     parseFloat_or (opt_chain teams [''home'', ''league'', ''goals'', ''for'', ''average'', ''home'']) (12 / 10)"

definition away_average :: "jsval \<Rightarrow> js_error + jsnum" where
  "away_average teams =
     parseFloat_or (opt_chain teams [''away'', ''league'', ''goals'', ''for'', ''average'', ''away'']) (9 / 10)"

text \<open>A number that is not \<open>NaN\<close> and has no fractional part (the infinities included).\<close>

definition integral :: "jsnum \<Rightarrow> bool" where
  "integral x = (case x of NaN \<Rightarrow> False | Fin q \<Rightarrow> of_int \<lfloor>q\<rfloor> = q | _ \<Rightarrow> True)"

section \<open>The request handler\<close>

text \<open>
  The handler talks to the upstream service twice: once for the fixtures of a date, then
  once per selected fixture for its prediction payload. The service is a parameter of the
  model: what each request returns, \<open>Inl\<close> when the request or the decoding of its answer
  throws. A fixture entry is taken as well-formed (the fields the loop reads are there).
\<close>

record api_fixture =
  league_id :: int
  league_name :: string
  fixture_id :: int
  fixture_date :: string
  home_name :: string
  away_name :: string

record upstream =
  api_fixtures :: "string \<Rightarrow> js_error + api_fixture list"
    \<comment> \<open>\<^verbatim>\<open>fixturesData.response || []\<close> for a date\<close>
  api_prediction :: "int \<Rightarrow> js_error + jsval"
    \<comment> \<open>\<^verbatim>\<open>data.response?.[0]\<close> for a fixture id\<close>
  localeCompare :: "string \<Rightarrow> string \<Rightarrow> int"

record fixture_info =
  fx_id :: int
  fx_time :: string
  fx_league :: string
  fx_home :: string
  fx_away :: string

record prediction_row =
  row_id :: int
  row_time :: string
  row_league :: string
  row_home :: string
  row_away :: string
  row_home_pct :: jsval
  row_draw_pct :: jsval
  row_away_pct :: jsval
  row_prediction :: string
  row_prediction_text :: string
  row_over_under :: string
  row_btts :: string
  row_exact_score :: string
  row_confidence :: nat
  row_advice :: jsval

definition or_default :: "jsval \<Rightarrow> jsval \<Rightarrow> jsval" where
  \<comment> \<open>\<^verbatim>\<open>v || d\<close>\<close>
  "or_default v d = (if truthy v then v else d)"

text \<open>
  \<^verbatim>\<open>fetchPrediction\<close>: \<open>Inr None\<close> is the early \<^verbatim>\<open>return null\<close>; an exception (of the
  request, or of \<^verbatim>\<open>determineOverUnder\<close>) is caught and gives \<^verbatim>\<open>null\<close> too.
\<close>

definition fetchPrediction_body ::
  "upstream \<Rightarrow> int \<Rightarrow> fixture_info \<Rightarrow> js_error + prediction_row option" where
  "fetchPrediction_body up fixtureId fixtureInfo =
     (case api_prediction up fixtureId of Inl e \<Rightarrow> Inl e | Inr pred \<Rightarrow>
      if \<not> truthy pred then Inr None
      else
        let predictions = or_default (get pred ''predictions'') (Obj []);
            percent = or_default (get predictions ''percent'') (Obj []);
            goals = or_default (get predictions ''goals'') (Obj []);
            teams = or_default (get pred ''teams'') (Obj []);
            comparison = or_default (get pred ''comparison'') (Obj []);
            homePct = or_default (get percent ''home'') (Str ''33%'');
            drawPct = or_default (get percent ''draw'') (Str ''33%'');
            awayPct = or_default (get percent ''away'') (Str ''33%'');
            advice = or_default (get predictions ''advice'') (Str '''');
            r = determinePrediction homePct awayPct drawPct (fx_home fixtureInfo) (fx_away fixtureInfo)
        in case determineOverUnder (get goals ''home'') (get goals ''away'') advice of
             Inl e \<Rightarrow> Inl e
           | Inr overUnder \<Rightarrow>
               Inr (Some \<lparr>row_id = fixtureId, row_time = fx_time fixtureInfo,
                 row_league = fx_league fixtureInfo, row_home = fx_home fixtureInfo,
                 row_away = fx_away fixtureInfo, row_home_pct = homePct, row_draw_pct = drawPct,
                 row_away_pct = awayPct, row_prediction = prediction r,
                 row_prediction_text = prediction_text r, row_over_under = overUnder,
                 row_btts = determineBTTS teams comparison,
                 row_exact_score =
                   determineExactScore (prediction r) teams (get goals ''home'') (get goals ''away''),
                 row_confidence = getConfidence homePct awayPct drawPct,
                 row_advice = advice\<rparr>))"

definition fetchPrediction :: "upstream \<Rightarrow> int \<Rightarrow> fixture_info \<Rightarrow> prediction_row option" where
  "fetchPrediction up fixtureId fixtureInfo =
     (case fetchPrediction_body up fixtureId fixtureInfo of Inl e \<Rightarrow> None | Inr r \<Rightarrow> r)"

text \<open>The keys of the \<^verbatim>\<open>PRIORITY_LEAGUES\<close> table (the names it maps them to are not read).\<close>

definition PRIORITY_LEAGUES :: "int list" where
  "PRIORITY_LEAGUES = [39, 140, 135, 78, 61, 2, 3, 848, 262, 94, 88, 90, 144, 203, 206, 179,
     197, 307, 305, 301, 330, 417, 895, 233]"

definition important_keywords :: "string list" where
  "important_keywords = [''Serie A'', ''Liga'', ''Premier'', ''Bundesliga'', ''Ligue 1'',
     ''Champions'', ''Europa'', ''Cup'', ''Copa'', ''Coupe'']"

text \<open>The loop that selects the fixtures of a priority league or with an important name.\<close>

fun importantFixtures :: "api_fixture list \<Rightarrow> fixture_info list" where
  "importantFixtures [] = []"
| "importantFixtures (f # fs) =
     (let leagueId = league_id f; leagueName = league_name f;
          isPriority = List.member PRIORITY_LEAGUES leagueId;
          isImportantName = list_ex (\<lambda>kw. js_includes leagueName kw) important_keywords
      in if isPriority \<or> isImportantName then
           \<lparr>fx_id = fixture_id f, fx_time = take 5 (drop 11 (fixture_date f)),
            fx_league = leagueName, fx_home = home_name f, fx_away = away_name f\<rparr>
             # importantFixtures fs
         else importantFixtures fs)"

text \<open>
  \<^verbatim>\<open>predictions.sort((a, b) => a.time.localeCompare(b.time))\<close>: a stable sort by the
  comparison of the kick-off times.
\<close>

fun insort_row ::
  "(string \<Rightarrow> string \<Rightarrow> int) \<Rightarrow> prediction_row \<Rightarrow> prediction_row list \<Rightarrow> prediction_row list" where
  "insort_row cmp x [] = [x]"
| "insort_row cmp x (y # ys) =
     (if cmp (row_time x) (row_time y) \<le> 0 then x # y # ys else y # insort_row cmp x ys)"

definition sort_rows ::
  "(string \<Rightarrow> string \<Rightarrow> int) \<Rightarrow> prediction_row list \<Rightarrow> prediction_row list" where
  "sort_rows cmp rows = foldr (insort_row cmp) rows []"

record event =
  httpMethod :: string
  path :: string

datatype body =
    NoBody
  | ErrorBody string
  | PredictionsBody string nat "prediction_row list"
    \<comment> \<open>\<^verbatim>\<open>date\<close>, \<^verbatim>\<open>total_matches\<close>, \<^verbatim>\<open>predictions\<close>\<close>

record response =
  statusCode :: nat
  body :: body

fun split_on :: "char \<Rightarrow> string \<Rightarrow> string list" where
  "split_on c [] = [[]]"
| "split_on c (x # xs) =
     (if x = c then [] # split_on c xs
      else (case split_on c xs of [] \<Rightarrow> [[x]] | w # ws \<Rightarrow> (x # w) # ws))"

fun valid_date :: "string \<Rightarrow> bool" where
  \<comment> \<open>the test of the regular expression \<^verbatim>\<open>^\d{4}-\d{2}-\d{2}$\<close>\<close>
  "valid_date [y1, y2, y3, y4, s1, m1, m2, s2, d1, d2] =
     (is_digit y1 \<and> is_digit y2 \<and> is_digit y3 \<and> is_digit y4 \<and> s1 = CHR ''-'' \<and>
      is_digit m1 \<and> is_digit m2 \<and> s2 = CHR ''-'' \<and> is_digit d1 \<and> is_digit d2)"
| "valid_date _ = False"

text \<open>
  The handler. Next to the response the model returns the fixture ids for which a
  prediction was requested from the upstream service, in the order of the requests.
\<close>

definition handler_body :: "upstream \<Rightarrow> event \<Rightarrow> js_error + response \<times> int list" where
  "handler_body up ev =
     (let pathParts = split_on CHR ''/'' (path ev); date = last pathParts in
      if \<not> valid_date date then
        Inr (\<lparr>statusCode = 400,
              body = ErrorBody ''Format de date invalide. Utilisez YYYY-MM-DD''\<rparr>, [])
      else
        case api_fixtures up date of Inl e \<Rightarrow> Inl e | Inr fixtures \<Rightarrow>
        if length fixtures = 0 then
          Inr (\<lparr>statusCode = 200, body = PredictionsBody date 0 []\<rparr>, [])
        else
          let limitedFixtures = take 25 (importantFixtures fixtures);
              results = map (\<lambda>fix. fetchPrediction up (fx_id fix) fix) limitedFixtures;
              predictions = sort_rows (localeCompare up) (List.map_filter (\<lambda>r. r) results)
          in Inr (\<lparr>statusCode = 200,
                   body = PredictionsBody date (length predictions) predictions\<rparr>,
                  map fx_id limitedFixtures))"

definition handler :: "upstream \<Rightarrow> event \<Rightarrow> response \<times> int list" where
  "handler up ev =
     (if httpMethod ev = ''OPTIONS'' then (\<lparr>statusCode = 200, body = NoBody\<rparr>, [])
      else case handler_body up ev of
             Inl e \<Rightarrow> (\<lparr>statusCode = 500, body = ErrorBody ''Erreur serveur''\<rparr>, [])
           | Inr r \<Rightarrow> r)"

subsection \<open>An example request\<close>

text \<open>An example: thirty Premier League fixtures on one day, an upstream payload without fields.\<close>

fun codepoint_compare :: "string \<Rightarrow> string \<Rightarrow> int" where
  "codepoint_compare [] [] = 0"
| "codepoint_compare [] (y # ys) = - 1"
| "codepoint_compare (x # xs) [] = 1"
| "codepoint_compare (x # xs) (y # ys) =
     (if (of_char x :: nat) < of_char y then - 1
      else if (of_char y :: nat) < of_char x then 1
      else codepoint_compare xs ys)"

definition example_fixtures :: "api_fixture list" where
  "example_fixtures =
     map (\<lambda>i. \<lparr>league_id = 39, league_name = ''Premier League'', fixture_id = i,
                fixture_date = ''2026-01-15T20:00:00+00:00'', home_name = ''Arsenal'',
                away_name = ''Chelsea''\<rparr>) [1..30]"

definition example_upstream :: upstream where
  "example_upstream =
     \<lparr>api_fixtures = (\<lambda>date. Inr example_fixtures), api_prediction = (\<lambda>i. Inr (Obj [])),
      localeCompare = codepoint_compare\<rparr>"

definition example_event :: event where
  "example_event = \<lparr>httpMethod = ''GET'', path = ''/api/predictions/2026-01-15''\<rparr>"

section \<open>Properties of the number model\<close>

lemma round_half_even_of_int: "round_half_even (of_int n) = n"
  by (simp add: round_half_even_def)

text \<open>Rounding an integer to a double gives an integer, whatever its size.\<close>

lemma to_double_of_int_integral:
  assumes "to_double (of_int k) = Fin q"
  shows "q \<in> \<int>"
proof (cases "k = 0")
  case True
  with assms show ?thesis by (simp add: to_double_def)
next
  case False
  define e where "e = max (ilog2 \<bar>of_int k\<bar> - 52) (- 1074)"
  define m where "m = round_half_even (\<bar>of_int k\<bar> / 2 powi e)"
  have q: "q = sgn (of_int k) * (of_int m * 2 powi e)"
    using assms False
    by (simp add: to_double_def Let_def e_def m_def split: if_splits)
  have "(of_int m * 2 powi e :: rat) \<in> \<int>"
  proof (cases "0 \<le> e")
    case True
    then have "(2 powi e :: rat) = of_int (2 ^ nat e)"
      by (simp add: power_int_def)
    then show ?thesis by (metis Ints_mult Ints_of_int)
  next
    case False
    then have p: "(2 powi e :: rat) = inverse (2 ^ nat (- e))"
      by (simp add: power_int_def power_one_over inverse_eq_divide)
    then have "\<bar>of_int k :: rat\<bar> / 2 powi e = of_int (\<bar>k\<bar> * 2 ^ nat (- e))"
      by (simp add: divide_inverse)
    then have "m = \<bar>k\<bar> * 2 ^ nat (- e)"
      unfolding m_def by (simp only: round_half_even_of_int)
    then have "(of_int m * 2 powi e :: rat) = of_int \<bar>k\<bar>"
      using p by simp
    then show ?thesis by (metis Ints_of_int)
  qed
  moreover have "(sgn (of_int k) :: rat) \<in> \<int>"
    by (simp add: sgn_if)
  ultimately show ?thesis
    unfolding q by (rule Ints_mult [rotated])
qed

lemma to_double_not_NaN: "to_double q \<noteq> NaN"
  by (simp add: to_double_def Let_def)

lemma bit_length_le:
  assumes "n < 2 ^ k"
  shows "bit_length n \<le> int k"
  using assms
proof (induction k arbitrary: n)
  case 0
  then show ?case by (simp add: bit_length.simps [of n])
next
  case (Suc k)
  show ?case
  proof (cases "n \<le> 0")
    case True
    then show ?thesis by (simp add: bit_length.simps [of n])
  next
    case False
    from Suc.prems have "n div 2 < 2 ^ k" by simp
    from Suc.IH [OF this] False show ?thesis
      by (simp add: bit_length.simps [of n])
  qed
qed

lemma bit_length_one: "bit_length 1 = 1"
  by (simp add: bit_length.simps [of 1] bit_length.simps [of 0])

lemma ilog2_of_int_le:
  assumes "n < 2 ^ 53"
  shows "ilog2 (of_int n) \<le> 52"
proof -
  have "bit_length n \<le> 53" using bit_length_le [OF assms] by simp
  then show ?thesis
    by (auto simp: ilog2_def Let_def bit_length_one)
qed

text \<open>Integers below \<open>2^53\<close> in magnitude are doubles: rounding leaves them as they are.\<close>

lemma to_double_of_int_exact:
  assumes "\<bar>k\<bar> < 2 ^ 53"
  shows "to_double (of_int k) = Fin (of_int k)"
proof (cases "k = 0")
  case True
  then show ?thesis by (simp add: to_double_def)
next
  case False
  define e where "e = max (ilog2 \<bar>of_int k\<bar> - 52) (- 1074)"
  have "ilog2 \<bar>of_int k\<bar> = ilog2 (of_int \<bar>k\<bar>)" by simp
  also have "\<dots> \<le> 52" using assms by (rule ilog2_of_int_le)
  finally have e: "e \<le> 0" "- 1074 \<le> e" by (simp_all add: e_def)
  then have p: "(2 powi e :: rat) = inverse (2 ^ nat (- e))"
    by (cases "e = 0") (simp_all add: power_int_def power_one_over inverse_eq_divide)
  then have "\<bar>of_int k :: rat\<bar> / 2 powi e = of_int (\<bar>k\<bar> * 2 ^ nat (- e))"
    by (simp add: divide_inverse)
  then have m: "round_half_even (\<bar>of_int k :: rat\<bar> / 2 powi e) = \<bar>k\<bar> * 2 ^ nat (- e)"
    by (simp only: round_half_even_of_int)
  have v: "(of_int (\<bar>k\<bar> * 2 ^ nat (- e)) * 2 powi e :: rat) = of_int \<bar>k\<bar>"
    using p by simp
  have small: "\<not> of_int (2 ^ 1024) \<le> (of_int \<bar>k\<bar> :: rat)"
  proof -
    have "\<bar>k\<bar> < 2 ^ 1024"
      using assms by (rule less_trans) simp
    then show ?thesis by (simp only: of_int_le_iff not_le)
  qed
  have "to_double (of_int k) = Fin (sgn (of_int k) * of_int \<bar>k\<bar>)"
    using False small unfolding to_double_def Let_def e_def [symmetric] m v
    by simp
  also have "sgn (of_int k :: rat) * of_int \<bar>k\<bar> = of_int k"
    by (simp add: sgn_if)
  finally show ?thesis .
qed


text \<open>
  So a percentage written as decimal digits followed by \<^verbatim>\<open>%\<close> parses to the number
  the digits denote, as long as that is below \<open>2^53\<close>.
\<close>

lemma is_digit_cases:
  assumes "is_digit c"
  obtains d where "digit_of c = Some d" "0 \<le> d" "d < 10"
    "\<not> js_whitespace c" "c \<noteq> CHR ''%''" "c \<noteq> CHR ''-''" "c \<noteq> CHR ''+''"
    "c \<noteq> CHR ''x''" "c \<noteq> CHR ''X''"
  using assms by (auto simp: is_digit_def digit_of_def js_whitespace_def)

lemma js_replace_percent_suffix:
  assumes "\<forall>c \<in> set ds. is_digit c"
  shows "js_replace (ds @ ''%'') ''%'' '''' = ds"
  using assms
proof (induction ds)
  case Nil
  then show ?case by simp
next
  case (Cons c cs)
  then have "c \<noteq> CHR ''%''" by (auto elim: is_digit_cases)
  with Cons show ?case by simp
qed

lemma take_digits_nonempty:
  assumes "is_digit c"
  shows "take_digits 10 (c # cs) \<noteq> []"
  using assms by (auto elim!: is_digit_cases)

lemma digits_value_nonneg_aux:
  "0 \<le> (acc :: int) \<Longrightarrow> \<forall>d \<in> set ds. 0 \<le> d \<Longrightarrow> 0 \<le> foldl (\<lambda>acc d. acc * 10 + d) acc ds"
  by (induction ds arbitrary: acc) auto

lemma take_digits_nonneg: "\<forall>d \<in> set (take_digits 10 s). 0 \<le> d"
proof (induction s)
  case Nil
  then show ?case by simp
next
  case (Cons c cs)
  show ?case
  proof (cases "index_of c ''0123456789abcdefghijklmnopqrstuvwxyz''")
    case None
    with Cons show ?thesis by (auto simp: digit_of_def split: option.splits)
  next
    case (Some i)
    with Cons show ?thesis by (auto simp: digit_of_def)
  qed
qed

lemma parseInt_digits:
  assumes "ds \<noteq> []" and "\<forall>c \<in> set ds. is_digit c"
  shows "parseInt ds = to_double (of_int (digits_value 10 (take_digits 10 ds)))"
proof -
  from assms obtain c cs where ds: "ds = c # cs" and c: "is_digit c"
    by (cases ds) auto
  from c have w: "dropWhile js_whitespace ds = ds"
    unfolding ds by (auto elim: is_digit_cases)
  from c have sg: "c \<noteq> CHR ''-''" "c \<noteq> CHR ''+''"
    by (auto elim: is_digit_cases)
  have x: "take 2 ds \<noteq> ''0x''" "take 2 ds \<noteq> ''0X''"
  proof -
    show "take 2 ds \<noteq> ''0x''"
    proof (cases cs)
      case Nil
      then show ?thesis by (simp add: ds)
    next
      case (Cons c' cs')
      with assms(2) ds have "is_digit c'" by simp
      then have "c' \<noteq> CHR ''x''" by (auto elim: is_digit_cases)
      then show ?thesis by (simp add: ds Cons)
    qed
    show "take 2 ds \<noteq> ''0X''"
    proof (cases cs)
      case Nil
      then show ?thesis by (simp add: ds)
    next
      case (Cons c' cs')
      with assms(2) ds have "is_digit c'" by simp
      then have "c' \<noteq> CHR ''X''" by (auto elim: is_digit_cases)
      then show ?thesis by (simp add: ds Cons)
    qed
  qed
  have n: "take_digits 10 ds \<noteq> []"
    unfolding ds using c by (rule take_digits_nonempty)
  have s1: "(case ds of [] \<Rightarrow> (1, ds)
               | c # cs \<Rightarrow> if c = CHR ''-'' then (- 1, cs)
                          else if c = CHR ''+'' then (1, cs) else (1, ds)) = (1 :: rat, ds)"
    using sg by (simp add: ds)
  show ?thesis
    unfolding parseInt_def w Let_def s1
    using x n by simp
qed

lemma parsed_pct_digits:
  assumes "ds \<noteq> []" and "\<forall>c \<in> set ds. is_digit c"
    and "digits_value 10 (take_digits 10 ds) < 2 ^ 53"
  shows "parsed_pct (ds @ ''%'') = Fin (of_int (digits_value 10 (take_digits 10 ds)))"
proof -
  have "0 \<le> digits_value 10 (take_digits 10 ds)"
    unfolding digits_value_def
    using digits_value_nonneg_aux [of 0 "take_digits 10 ds"] take_digits_nonneg [of ds] by simp
  with assms(3) have "\<bar>digits_value 10 (take_digits 10 ds)\<bar> < 2 ^ 53" by simp
  then show ?thesis
    unfolding parsed_pct_def js_replace_percent_suffix [OF assms(2)] parseInt_digits [OF assms(1,2)]
    by (rule to_double_of_int_exact)
qed

section \<open>Properties of the outcome rule\<close>

lemma js_includes_iff: "js_includes s t \<longleftrightarrow> sublist t s"
proof (induction s)
  case Nil
  then show ?case by auto
next
  case (Cons c cs)
  then show ?case by (auto simp: sublist_Cons_right)
qed

lemma js_ge_le_Fin: "js_ge x (Fin a) \<Longrightarrow> js_le x (Fin b) \<Longrightarrow> a \<le> b"
  by (cases x) (auto simp: js_ge_def js_le_def)

lemma determinePrediction_Str:
  "determinePrediction (Str h) (Str a) (Str d) hn an =
     (let home = parsed_pct h; away = parsed_pct a; draw = parsed_pct d in
      if js_ge home (Fin 45) \<and> js_le away (Fin 10) then
        \<lparr>prediction = ''1'', prediction_text = hn @ '' gagne''\<rparr>
      else if js_ge away (Fin 45) \<and> js_le home (Fin 10) then
        (if \<exists>club \<in> set bigClubs. js_includes hn club then
           \<lparr>prediction = ''1X'', prediction_text = ''DC '' @ hn\<rparr>
         else \<lparr>prediction = ''2'', prediction_text = an @ '' gagne''\<rparr>)
      else if js_ge home (Fin 35) \<and> js_ge draw (Fin 35) then
        \<lparr>prediction = ''1X'', prediction_text = ''DC '' @ hn\<rparr>
      else if js_ge away (Fin 35) \<and> js_ge draw (Fin 35) then
        \<lparr>prediction = ''X2'', prediction_text = ''DC '' @ an\<rparr>
      else if js_ge draw (Fin 40) then
        \<lparr>prediction = ''X'', prediction_text = ''Match Nul probable''\<rparr>
      else if js_gt home away then
        \<lparr>prediction = ''1X'', prediction_text = ''DC '' @ hn\<rparr>
      else \<lparr>prediction = ''X2'', prediction_text = ''DC '' @ an\<rparr>)"
  unfolding determinePrediction_def determinePrediction_body_def parsed_pct_def Let_def
  by (simp only: call_replace.simps sum.case list_ex_iff)

text \<open>
  C1. For percentages given as strings: whenever the home percentage parses to at least
  45 and the away percentage to at most 10, the outcome is \<^verbatim>\<open>1\<close> and the text is
  the home team's name followed by \<^verbatim>\<open> gagne\<close>: rule 1 is tried first, whatever
  the draw percentage and the names are.
\<close>

theorem determinePrediction_home_win:
  assumes "js_ge (parsed_pct h) (Fin 45)" and "js_le (parsed_pct a) (Fin 10)"
  shows "determinePrediction (Str h) (Str a) (Str d) hn an =
           \<lparr>prediction = ''1'', prediction_text = hn @ '' gagne''\<rparr>"
  using assms by (simp add: determinePrediction_Str)

theorem determinePrediction_home_win_witness:
  "js_ge (parsed_pct ''50%'') (Fin 45) \<and> js_le (parsed_pct ''5%'') (Fin 10) \<and>
   determinePrediction (Str ''50%'') (Str ''5%'') (Str ''45%'') ''Arsenal'' ''Chelsea'' =
     \<lparr>prediction = ''1'', prediction_text = ''Arsenal gagne''\<rparr>"
proof -
  have h: "js_ge (parsed_pct ''50%'') (Fin 45)" by code_simp
  have a: "js_le (parsed_pct ''5%'') (Fin 10)" by code_simp
  from determinePrediction_home_win [OF h a, of "''45%''" "''Arsenal''" "''Chelsea''"] h a
  show ?thesis by simp
qed

text \<open>
  C2. For percentages given as strings: whenever the away percentage parses to at least
  45, the home percentage to at most 10, and the home team's name contains one of the
  configured big-club names, the outcome is \<^verbatim>\<open>1X\<close> with text \<^verbatim>\<open>DC <home>\<close>
  (and so not \<^verbatim>\<open>2\<close>).
\<close>

theorem determinePrediction_big_club:
  assumes "js_ge (parsed_pct a) (Fin 45)" and "js_le (parsed_pct h) (Fin 10)"
    and "\<exists>club \<in> set bigClubs. js_includes hn club"
  shows "determinePrediction (Str h) (Str a) (Str d) hn an =
           \<lparr>prediction = ''1X'', prediction_text = ''DC '' @ hn\<rparr>"
proof -
  have "\<not> js_ge (parsed_pct h) (Fin 45)"
    using js_ge_le_Fin [of "parsed_pct h" 45 10] assms(2) by auto
  with assms show ?thesis by (simp add: determinePrediction_Str)
qed

theorem determinePrediction_big_club_witness:
  "js_ge (parsed_pct ''70%'') (Fin 45) \<and> js_le (parsed_pct ''8%'') (Fin 10) \<and>
   (\<exists>club \<in> set bigClubs. js_includes ''Al Ahly SC'' club) \<and>
   determinePrediction (Str ''8%'') (Str ''70%'') (Str ''22%'') ''Al Ahly SC'' ''ENPPI'' =
     \<lparr>prediction = ''1X'', prediction_text = ''DC Al Ahly SC''\<rparr>"
proof -
  have a: "js_ge (parsed_pct ''70%'') (Fin 45)" by code_simp
  have h: "js_le (parsed_pct ''8%'') (Fin 10)" by code_simp
  have c: "\<exists>club \<in> set bigClubs. js_includes ''Al Ahly SC'' club"
    unfolding bigClubs_def by (simp add: prefix_def)
  from determinePrediction_big_club [OF a h c, of "''22%''" "''ENPPI''"] a h c
  show ?thesis by simp
qed

lemma prediction_Str:
  "prediction (determinePrediction (Str h) (Str a) (Str d) hn an) =
     outcome_by_priority (parsed_pct h) (parsed_pct a) (parsed_pct d) hn"
  by (simp add: determinePrediction_Str outcome_by_priority_def Let_def)

lemma parsed_pct_examples:
  "parsed_pct ''38%'' = Fin 38" "parsed_pct ''24%'' = Fin 24" "parsed_pct ''36%'' = Fin 36"
  by code_simp+

text \<open>
  C3. On string percentages the outcome code is the one the first matching rule of the
  ordered table gives (rules 1 to 5, then the default rule 6). In particular, when rules 1
  and 2 do not apply and both the home and the draw percentage are at least 35, the
  outcome is \<^verbatim>\<open>1X\<close>, also when the away percentage is at least 35 too (rule 4 would
  give \<^verbatim>\<open>X2\<close>); and home 38%, draw 38%, away 24% gives \<^verbatim>\<open>1X\<close>.
\<close>

theorem determinePrediction_priority_order:
  "prediction (determinePrediction (Str h) (Str a) (Str d) hn an) =
     outcome_by_priority (parsed_pct h) (parsed_pct a) (parsed_pct d) hn
   \<and> (\<not> (js_ge (parsed_pct h) (Fin 45) \<and> js_le (parsed_pct a) (Fin 10)) \<and>
      \<not> (js_ge (parsed_pct a) (Fin 45) \<and> js_le (parsed_pct h) (Fin 10)) \<and>
      js_ge (parsed_pct h) (Fin 35) \<and> js_ge (parsed_pct d) (Fin 35)
      \<longrightarrow> prediction (determinePrediction (Str h) (Str a) (Str d) hn an) = ''1X'')
   \<and> prediction (determinePrediction (Str ''38%'') (Str ''24%'') (Str ''38%'') hn an) = ''1X''"
proof (intro conjI impI)
  show "prediction (determinePrediction (Str h) (Str a) (Str d) hn an) =
          outcome_by_priority (parsed_pct h) (parsed_pct a) (parsed_pct d) hn"
    by (rule prediction_Str)
next
  assume "\<not> (js_ge (parsed_pct h) (Fin 45) \<and> js_le (parsed_pct a) (Fin 10)) \<and>
      \<not> (js_ge (parsed_pct a) (Fin 45) \<and> js_le (parsed_pct h) (Fin 10)) \<and>
      js_ge (parsed_pct h) (Fin 35) \<and> js_ge (parsed_pct d) (Fin 35)"
  then show "prediction (determinePrediction (Str h) (Str a) (Str d) hn an) = ''1X''"
    by (simp add: prediction_Str outcome_by_priority_def)
next
  show "prediction (determinePrediction (Str ''38%'') (Str ''24%'') (Str ''38%'') hn an) = ''1X''"
    by (simp add: prediction_Str outcome_by_priority_def parsed_pct_examples js_ge_def js_le_def)
qed

theorem determinePrediction_priority_order_witness:
  "\<not> (js_ge (parsed_pct ''36%'') (Fin 45) \<and> js_le (parsed_pct ''36%'') (Fin 10)) \<and>
   js_ge (parsed_pct ''36%'') (Fin 35) \<and>
   prediction (determinePrediction (Str ''36%'') (Str ''36%'') (Str ''36%'') ''Lyon'' ''Nice'') = ''1X''"
proof -
  have g: "js_ge (parsed_pct ''36%'') (Fin 35)"
    and n: "\<not> js_ge (parsed_pct ''36%'') (Fin 45)"
    by (simp_all add: parsed_pct_examples js_ge_def js_le_def)
  from determinePrediction_priority_order
         [of "''36%''" "''36%''" "''36%''" "''Lyon''" "''Nice''"]
  have "prediction (determinePrediction (Str ''36%'') (Str ''36%'') (Str ''36%'') ''Lyon'' ''Nice'') = ''1X''"
    using g n by blast
  with g n show ?thesis by blast
qed

text \<open>
  C4. With non-numeric percentage strings nothing is thrown, but the result is not the
  default one: \<^verbatim>\<open>parseInt\<close> returns \<open>NaN\<close> instead of throwing, every comparison
  with \<open>NaN\<close> is false, and the chain falls through to its last branch. On
  \<^verbatim>\<open>"abc%"\<close> for all three percentages the result is \<^verbatim>\<open>X2\<close>, \<^verbatim>\<open>DC <away>\<close>.
\<close>

theorem determinePrediction_malformed_strings:
  "determinePrediction (Str ''abc%'') (Str ''abc%'') (Str ''abc%'') ''Lyon'' ''Nice'' =
     \<lparr>prediction = ''X2'', prediction_text = ''DC Nice''\<rparr>"
  by code_simp

text \<open>
  The \<^verbatim>\<open>catch\<close> clause is reached by an argument that is not a string (it has no
  \<^verbatim>\<open>replace\<close> method), never by a string, whatever its content.
\<close>

lemma determinePrediction_not_a_string:
  assumes "\<forall>s. homePct \<noteq> Str s"
  shows "determinePrediction homePct awayPct drawPct hn an =
           \<lparr>prediction = ''X'', prediction_text = ''Match Nul''\<rparr>"
  using assms
  by (cases homePct) (simp_all add: determinePrediction_def determinePrediction_body_def)

lemma determinePrediction_Str_never_default:
  "prediction_text (determinePrediction (Str h) (Str a) (Str d) hn an) \<noteq> ''Match Nul''"
proof -
  have "x @ '' gagne'' \<noteq> ''Match Nul''" for x :: string
  proof
    assume "x @ '' gagne'' = ''Match Nul''"
    then have "last (x @ '' gagne'') = last ''Match Nul''" by (rule arg_cong)
    then show False by simp
  qed
  then show ?thesis
    by (simp add: determinePrediction_Str Let_def)
qed

text \<open>
  An example with no rule among the first five matching: home 50%, draw 30%, away 20%.
  Rule 1 needs an away percentage of at most 10, so the default rule decides.
\<close>

lemma determinePrediction_default_rule_example:
  "determinePrediction (Str ''50%'') (Str ''20%'') (Str ''30%'') ''Arsenal'' ''Chelsea'' =
     \<lparr>prediction = ''1X'', prediction_text = ''DC Arsenal''\<rparr>"
  "getConfidence (Str ''50%'') (Str ''20%'') (Str ''30%'') = 4"
  by code_simp+

section \<open>Properties of the confidence tier\<close>

lemma Math_max3_Fin: "Math_max [Fin x, Fin y, Fin z] = Fin (max x (max y z))"
  by (auto simp: Math_max_def js_max2_def max_def)

lemma getConfidence_max_pct:
  assumes "max_pct h a d = Some m"
  shows "getConfidence (Str h) (Str a) (Str d) = tier_of_max m"
proof -
  from assms obtain x y z where p: "parsed_pct h = Fin x" "parsed_pct a = Fin y"
      "parsed_pct d = Fin z" and m: "m = max x (max y z)"
    by (auto simp: max_pct_def split: jsnum.splits)
  from p have "Math_max [parseInt (js_replace h ''%'' ''''), parseInt (js_replace a ''%'' ''''),
      parseInt (js_replace d ''%'' '''')] = Fin m"
    unfolding m parsed_pct_def by (simp only: Math_max3_Fin)
  then show ?thesis
    by (simp add: getConfidence_def getConfidence_body_def tier_of_max_def js_ge_def js_le_def
        del: js_replace.simps)
qed

lemma getConfidence_range: "getConfidence u v w \<in> {2, 3, 4}"
  by (auto simp: getConfidence_def getConfidence_body_def Let_def split: sum.splits)

text \<open>
  C5. For a well-formed triple (each percentage parses to a finite number) with maximum
  \<open>m\<close>, the tier is 4 when \<open>m \<ge> 50\<close>, 3 when \<open>45 \<le> m < 50\<close> and 2 otherwise. So between
  two well-formed triples the tier is monotone in the maximum, and it is strictly larger
  exactly when the maximum crosses 45 or 50. Tier 1 is produced for no arguments at all.
\<close>

theorem getConfidence_tiers:
  "(max_pct h a d = Some m \<longrightarrow>
      getConfidence (Str h) (Str a) (Str d) =
        (if 50 \<le> m then 4 else if 45 \<le> m then 3 else 2))
   \<and> (max_pct h a d = Some m \<and> max_pct h' a' d' = Some m' \<and> m \<le> m' \<longrightarrow>
        getConfidence (Str h) (Str a) (Str d) \<le> getConfidence (Str h') (Str a') (Str d'))
   \<and> (max_pct h a d = Some m \<and> max_pct h' a' d' = Some m' \<and> m \<le> m' \<longrightarrow>
        (getConfidence (Str h) (Str a) (Str d) < getConfidence (Str h') (Str a') (Str d')
           \<longleftrightarrow> (m < 45 \<and> 45 \<le> m') \<or> (m < 50 \<and> 50 \<le> m')))
   \<and> getConfidence u v w \<noteq> 1"
proof (intro conjI impI)
  show "getConfidence u v w \<noteq> 1"
    using getConfidence_range [of u v w] by auto
next
  assume "max_pct h a d = Some m"
  then show "getConfidence (Str h) (Str a) (Str d) =
        (if 50 \<le> m then 4 else if 45 \<le> m then 3 else 2)"
    by (simp add: getConfidence_max_pct [of h a d m] tier_of_max_def)
next
  assume "max_pct h a d = Some m \<and> max_pct h' a' d' = Some m' \<and> m \<le> m'"
  then show "getConfidence (Str h) (Str a) (Str d) \<le> getConfidence (Str h') (Str a') (Str d')"
    by (simp add: getConfidence_max_pct [of h a d m] getConfidence_max_pct [of h' a' d' m']
        tier_of_max_def)
next
  assume "max_pct h a d = Some m \<and> max_pct h' a' d' = Some m' \<and> m \<le> m'"
  then show "getConfidence (Str h) (Str a) (Str d) < getConfidence (Str h') (Str a') (Str d')
           \<longleftrightarrow> (m < 45 \<and> 45 \<le> m') \<or> (m < 50 \<and> 50 \<le> m')"
    by (simp add: getConfidence_max_pct [of h a d m] getConfidence_max_pct [of h' a' d' m']
        tier_of_max_def)
qed

lemma parsed_pct_examples2:
  "parsed_pct ''44%'' = Fin 44" "parsed_pct ''26%'' = Fin 26" "parsed_pct ''30%'' = Fin 30"
  "parsed_pct ''45%'' = Fin 45" "parsed_pct ''25%'' = Fin 25"
  by code_simp+

theorem getConfidence_tiers_witness:
  "max_pct ''44%'' ''26%'' ''30%'' = Some 44 \<and> max_pct ''45%'' ''25%'' ''30%'' = Some 45 \<and>
   getConfidence (Str ''44%'') (Str ''26%'') (Str ''30%'') = 2 \<and>
   getConfidence (Str ''45%'') (Str ''25%'') (Str ''30%'') = 3"
proof -
  have a: "max_pct ''44%'' ''26%'' ''30%'' = Some 44"
    and b: "max_pct ''45%'' ''25%'' ''30%'' = Some 45"
    by (simp_all add: max_pct_def parsed_pct_examples2)
  from getConfidence_tiers [of "''44%''" "''26%''" "''30%''" 44 "''45%''" "''25%''" "''30%''" 45
      Undefined Undefined Undefined]
    getConfidence_tiers [of "''45%''" "''25%''" "''30%''" 45 "''45%''" "''25%''" "''30%''" 45
      Undefined Undefined Undefined] a b
  show ?thesis by simp
qed

section \<open>Properties of the over/under rule\<close>

lemma determineOverUnder_goals_text:
  assumes "is_text goalsHome" and "is_text goalsAway"
  shows "determineOverUnder_goals goalsHome goalsAway = Inr
     (if truthy goalsHome \<and> truthy goalsAway \<and>
         (text_contains goalsHome ''3.5'' \<or> text_contains goalsAway ''3.5'') then Some ''Over 2.5''
      else if truthy goalsHome \<and> truthy goalsAway \<and>
         (text_contains goalsHome ''2.5'' \<or> text_contains goalsAway ''2.5'') then Some ''Under 3.5''
      else None)"
  using assms
  by (cases goalsHome; cases goalsAway)
     (simp_all add: determineOverUnder_goals_def String_includes_def or_else_def
        del: js_includes.simps)

text \<open>
  C6 (as the code has it). The goal-estimate texts are looked at only when both are
  present and non-empty: then the label is \<^verbatim>\<open>Over 2.5\<close> if either contains \<^verbatim>\<open>3.5\<close>,
  else \<^verbatim>\<open>Under 3.5\<close> if either contains \<^verbatim>\<open>2.5\<close>. In every other case (a text absent
  or empty, or neither matching) the advice string decides: \<^verbatim>\<open>Over 2.5\<close> if it contains
  \<^verbatim>\<open>+2.5\<close> or \<^verbatim>\<open>+3.5\<close>, else \<^verbatim>\<open>Under 2.5\<close> if it contains \<^verbatim>\<open>-2.5\<close> or
  \<^verbatim>\<open>-3.5\<close>, else the default \<^verbatim>\<open>Under 2.5\<close>.
\<close>

theorem determineOverUnder_labels:
  assumes "is_text goalsHome" and "is_text goalsAway"
  shows "determineOverUnder goalsHome goalsAway (Str advice) = Inr
     (if truthy goalsHome \<and> truthy goalsAway \<and>
         (text_contains goalsHome ''3.5'' \<or> text_contains goalsAway ''3.5'') then ''Over 2.5''
      else if truthy goalsHome \<and> truthy goalsAway \<and>
         (text_contains goalsHome ''2.5'' \<or> text_contains goalsAway ''2.5'') then ''Under 3.5''
      else if js_includes advice ''+2.5'' \<or> js_includes advice ''+3.5'' then ''Over 2.5''
      else if js_includes advice ''-2.5'' \<or> js_includes advice ''-3.5'' then ''Under 2.5''
      else ''Under 2.5'')"
proof -
  have adv: "advice = [] \<Longrightarrow> \<not> js_includes advice ''+2.5'' \<and> \<not> js_includes advice ''+3.5''"
    by simp
  show ?thesis
    unfolding determineOverUnder_def determineOverUnder_goals_text [OF assms]
    using adv by (simp add: or_else_def del: js_includes.simps)
qed

theorem determineOverUnder_labels_witness:
  "is_text (Str ''-3.5'') \<and> is_text (Str ''-1.5'') \<and>
   determineOverUnder (Str ''-3.5'') (Str ''-1.5'') (Str ''Double chance : Lyon or draw'') =
     Inr ''Over 2.5''"
proof -
  have t: "is_text (Str ''-3.5'')" "is_text (Str ''-1.5'')" by simp_all
  have c: "text_contains (Str ''-3.5'') ''3.5''" by (simp add: prefix_def)
  from determineOverUnder_labels [OF t, of "''Double chance : Lyon or draw''"] c t
  show ?thesis by simp
qed

text \<open>
  The claim as worded fails when only one side has a text: the home text \<^verbatim>\<open>-3.5\<close>
  contains \<^verbatim>\<open>3.5\<close>, the away text is \<^verbatim>\<open>null\<close>, and the label is the default one.
\<close>

theorem determineOverUnder_one_side_counterexample:
  "text_contains (Str ''-3.5'') ''3.5'' \<and>
   determineOverUnder (Str ''-3.5'') Null (Str '''') = Inr ''Under 2.5''"
  by (simp add: determineOverUnder_def determineOverUnder_goals_def prefix_def)

section \<open>Properties of the BTTS rule\<close>

text \<open>
  C7. With the four averages read from the statistics (home and away goals for, home and
  away goals against), the label is \<^verbatim>\<open>Oui\<close> when all four exceed the number the
  literal \<^verbatim>\<open>0.8\<close> denotes; otherwise \<^verbatim>\<open>Non\<close> when one of the two goals-against
  averages is below 0.5; otherwise \<^verbatim>\<open>Oui\<close> when both goals-for averages exceed 1;
  otherwise \<^verbatim>\<open>Non\<close>. An average whose field is missing (or \<^verbatim>\<open>null\<close>, or empty) is 0.
\<close>

theorem determineBTTS_rule:
  "(total_average teams ''home'' ''for'' = Inr hf \<and>
    total_average teams ''away'' ''for'' = Inr af \<and>
    total_average teams ''home'' ''against'' = Inr ha \<and>
    total_average teams ''away'' ''against'' = Inr aa \<longrightarrow>
      determineBTTS teams comparison =
        (if js_gt hf (to_double (8 / 10)) \<and> js_gt af (to_double (8 / 10)) \<and>
            js_gt ha (to_double (8 / 10)) \<and> js_gt aa (to_double (8 / 10)) then ''Oui''
         else if js_lt ha (Fin (1 / 2)) \<or> js_lt aa (Fin (1 / 2)) then ''Non''
         else if js_gt hf (Fin 1) \<and> js_gt af (Fin 1) then ''Oui''
         else ''Non''))
   \<and> (\<not> truthy (opt_chain teams [side, ''league'', ''goals'', dir, ''average'', ''total'']) \<longrightarrow>
        total_average teams side dir = Inr (Fin 0))"
  by (simp add: determineBTTS_def determineBTTS_body_def total_average_def parseFloat_or_def
      to_double_def)

lemma example_teams_averages:
  "total_average example_teams ''home'' ''for'' = Inr (Fin (3 / 2))"
  "total_average example_teams ''away'' ''for'' = Inr (to_double (12 / 10))"
  "total_average example_teams ''home'' ''against'' = Inr (Fin 1)"
  "total_average example_teams ''away'' ''against'' = Inr (to_double (9 / 10))"
  by code_simp+

lemma example_teams_exceed:
  "js_gt (Fin (3 / 2)) (to_double (8 / 10))" "js_gt (to_double (12 / 10)) (to_double (8 / 10))"
  "js_gt (Fin 1) (to_double (8 / 10))" "js_gt (to_double (9 / 10)) (to_double (8 / 10))"
  by code_simp+

theorem determineBTTS_rule_witness:
  "total_average example_teams ''home'' ''for'' = Inr (Fin (3 / 2)) \<and>
   total_average example_teams ''away'' ''for'' = Inr (to_double (12 / 10)) \<and>
   total_average example_teams ''home'' ''against'' = Inr (Fin 1) \<and>
   total_average example_teams ''away'' ''against'' = Inr (to_double (9 / 10)) \<and>
   determineBTTS example_teams Undefined = ''Oui'' \<and>
   \<not> truthy (opt_chain (Obj []) [''home'', ''league'', ''goals'', ''for'', ''average'', ''total'']) \<and>
   total_average (Obj []) ''home'' ''for'' = Inr (Fin 0)"
proof -
  have m: "\<not> truthy (opt_chain (Obj []) [''home'', ''league'', ''goals'', ''for'', ''average'', ''total''])"
    by (simp add: opt_chain_def)
  from determineBTTS_rule [of example_teams "Fin (3 / 2)" "to_double (12 / 10)" "Fin 1"
      "to_double (9 / 10)" Undefined]
  have 1: "determineBTTS example_teams Undefined = ''Oui''"
    using example_teams_averages example_teams_exceed by simp
  from determineBTTS_rule [of "Obj []" _ _ _ _ _ "''home''" "''for''"] m
  have 2: "total_average (Obj []) ''home'' ''for'' = Inr (Fin 0)"
    by blast
  from 1 2 m example_teams_averages show ?thesis by simp
qed

section \<open>Properties of the exact score\<close>

lemma show_nat_digits:
  "show_nat 0 = ''0''" "show_nat 1 = ''1''" "show_nat 2 = ''2''" "show_nat 3 = ''3''"
  "show_nat 4 = ''4''"
  by (simp_all add: show_nat.simps)

text \<open>
  C8. The score is not always a pair of digits in range: a home average that is not a
  number (here the text \<^verbatim>\<open>n/a\<close>) parses to \<open>NaN\<close>, which goes through
  \<^verbatim>\<open>Math.round\<close>, \<^verbatim>\<open>Math.max\<close> and \<^verbatim>\<open>Math.min\<close> unchanged and is printed.
\<close>

theorem determineExactScore_not_a_number:
  "determineExactScore ''1''
     (Obj [(''home'', team_stats (averages ''n/a'' ''n/a'' ''n/a'') (averages ''1.0'' ''1.0'' ''1.0''))])
     Undefined Undefined = ''NaN-1''"
  by code_simp

text \<open>
  C10. With outcome \<^verbatim>\<open>X\<close> and a home average that rounds to 4, the away goals are set
  to the home goals, 4, and the clamps (4 for the home side, 3 for the away side) are
  applied afterwards: the score is \<^verbatim>\<open>4-3\<close>, not a draw.
\<close>

theorem determineExactScore_draw_unequal:
  assumes "home_average teams = Inr h" and "away_average teams = Inr a"
    and "Math_round h = Fin 4"
  shows "determineExactScore ''X'' teams goalsHome goalsAway = ''4-3''"
  using assms
  by (simp add: determineExactScore_def determineExactScore_body_def home_average_def
      away_average_def exact_goals_def Math_max_def Math_min_def js_max2_def js_min2_def
      show_nat_digits)

theorem determineExactScore_draw_unequal_witness:
  "home_average (Obj [(''home'', team_stats (averages ''3.6'' ''2.1'' ''2.8'') Null)]) = Inr (to_double (36 / 10)) \<and>
   away_average (Obj [(''home'', team_stats (averages ''3.6'' ''2.1'' ''2.8'') Null)]) = Inr (to_double (9 / 10)) \<and>
   Math_round (to_double (36 / 10)) = Fin 4 \<and>
   determineExactScore ''X'' (Obj [(''home'', team_stats (averages ''3.6'' ''2.1'' ''2.8'') Null)])
     Undefined Undefined = ''4-3''"
proof -
  have h: "home_average (Obj [(''home'', team_stats (averages ''3.6'' ''2.1'' ''2.8'') Null)]) =
      Inr (to_double (36 / 10))" by code_simp
  have a: "away_average (Obj [(''home'', team_stats (averages ''3.6'' ''2.1'' ''2.8'') Null)]) =
      Inr (to_double (9 / 10))" by code_simp
  have r: "Math_round (to_double (36 / 10)) = Fin 4" by code_simp
  from determineExactScore_draw_unequal [OF h a r, of Undefined Undefined] h a r
  show ?thesis by simp
qed

section \<open>Properties of the exact score: the range\<close>

lemma integral_Fin_iff: "integral (Fin q) \<longleftrightarrow> q \<in> \<int>"
  unfolding integral_def by (auto simp: Ints_def)

lemma integral_to_double_of_int: "integral (to_double (of_int k))"
proof (cases "to_double (of_int k :: rat)")
  case NaN
  then show ?thesis by (simp add: to_double_not_NaN)
next
  case (Fin q)
  then show ?thesis
    using to_double_of_int_integral [of k q] by (simp add: integral_Fin_iff)
qed (simp_all add: integral_def)

lemma integral_Math_round: "x \<noteq> NaN \<Longrightarrow> integral (Math_round x)"
  by (cases x) (simp_all add: integral_def)

lemma integral_add_one: "integral x \<Longrightarrow> integral (js_add x (Fin 1))"
proof (cases x)
  case (Fin q)
  assume "integral x"
  with Fin obtain i where "q = of_int i"
    by (auto simp: integral_Fin_iff elim: Ints_cases)
  then have "q + 1 = of_int (i + 1)" by simp
  then show ?thesis
    using Fin integral_to_double_of_int [of "i + 1"] by (simp del: of_int_add)
qed (simp_all add: integral_def)

lemma integral_Math_max2: "integral x \<Longrightarrow> integral y \<Longrightarrow> integral (Math_max [x, y])"
  by (cases x; cases y) (simp_all add: integral_def Math_max_def js_max2_def)

lemma clamp_integral:
  assumes "integral x"
  shows "\<exists>n\<le>hi. Math_min [Math_max [x, Fin 0], Fin (of_nat hi)] = Fin (of_nat n)"
proof (cases x)
  case NaN
  with assms show ?thesis by (simp add: integral_def)
next
  case NegInf
  then have "Math_min [Math_max [x, Fin 0], Fin (of_nat hi)] = Fin (of_nat 0)"
    by (simp add: Math_max_def Math_min_def js_max2_def js_min2_def)
  then show ?thesis by blast
next
  case PosInf
  then have "Math_min [Math_max [x, Fin 0], Fin (of_nat hi)] = Fin (of_nat hi)"
    by (simp add: Math_max_def Math_min_def js_max2_def js_min2_def)
  then show ?thesis by blast
next
  case (Fin q)
  with assms obtain i where q: "q = of_int i"
    by (auto simp: integral_Fin_iff elim: Ints_cases)
  have "Math_min [Math_max [x, Fin 0], Fin (of_nat hi)] =
      Fin (of_nat (nat (min (max i 0) (int hi))))"
    unfolding Fin q
    by (auto simp: Math_max_def Math_min_def js_max2_def js_min2_def min_def max_def)
  moreover have "nat (min (max i 0) (int hi)) \<le> hi" by simp
  ultimately show ?thesis by blast
qed

lemma clamp_pair:
  assumes "integral h1" and "integral a1"
  shows "\<exists>H A. H \<le> 4 \<and> A \<le> 3 \<and>
           (Math_min [Math_max [h1, Fin 0], Fin 4], Math_min [Math_max [a1, Fin 0], Fin 3]) =
             (Fin (of_nat H), Fin (of_nat A))"
  using clamp_integral [OF assms(1), of 4] clamp_integral [OF assms(2), of 3] by auto

lemma exact_goals_printed:
  assumes "integral h0" and "integral a0"
  shows "\<exists>H A. H \<le> 4 \<and> A \<le> 3 \<and>
           exact_goals predicted h0 a0 = (Fin (of_nat H), Fin (of_nat A))"
proof -
  consider (home) "predicted = ''1'' \<or> predicted = ''1X''"
    | (away) "\<not> (predicted = ''1'' \<or> predicted = ''1X'')" "predicted = ''2'' \<or> predicted = ''X2''"
    | (draw) "predicted = ''X''"
    | (other) "\<not> (predicted = ''1'' \<or> predicted = ''1X'')"
        "\<not> (predicted = ''2'' \<or> predicted = ''X2'')" "predicted \<noteq> ''X''"
    by blast
  then show ?thesis
  proof cases
    case home
    then have "exact_goals predicted h0 a0 =
        (Math_min [Math_max [Math_max [h0, js_add a0 (Fin 1)], Fin 0], Fin 4],
         Math_min [Math_max [a0, Fin 0], Fin 3])"
      unfolding exact_goals_def by (simp only: if_True Let_def prod.case)
    then show ?thesis
      using clamp_pair [OF integral_Math_max2 [OF assms(1) integral_add_one [OF assms(2)]] assms(2)]
      by simp
  next
    case away
    then have "exact_goals predicted h0 a0 =
        (Math_min [Math_max [h0, Fin 0], Fin 4],
         Math_min [Math_max [Math_max [a0, js_add h0 (Fin 1)], Fin 0], Fin 3])"
      unfolding exact_goals_def by (simp only: if_True if_False Let_def prod.case)
    then show ?thesis
      using clamp_pair [OF assms(1) integral_Math_max2 [OF assms(2) integral_add_one [OF assms(1)]]]
      by simp
  next
    case draw
    then have "exact_goals predicted h0 a0 =
        (Math_min [Math_max [h0, Fin 0], Fin 4], Math_min [Math_max [h0, Fin 0], Fin 3])"
      unfolding exact_goals_def by simp
    then show ?thesis
      using clamp_pair [OF assms(1) assms(1)] by simp
  next
    case other
    then have "exact_goals predicted h0 a0 =
        (Math_min [Math_max [h0, Fin 0], Fin 4], Math_min [Math_max [a0, Fin 0], Fin 3])"
      unfolding exact_goals_def by (simp only: if_False Let_def prod.case)
    then show ?thesis
      using clamp_pair [OF assms] by simp
  qed
qed

lemma Number_toString_nat: "Number_toString (Fin (of_nat n)) = show_nat n"
  by simp

text \<open>
  When neither average is \<open>NaN\<close>, the score is a pair of digits in range: \<open>NaN\<close> is the
  only way out of the clamps.
\<close>

lemma determineExactScore_in_range:
  assumes "home_average teams \<noteq> Inr NaN" and "away_average teams \<noteq> Inr NaN"
  shows "\<exists>H A. H \<le> 4 \<and> A \<le> 3 \<and>
           determineExactScore predicted teams goalsHome goalsAway =
             show_nat H @ ''-'' @ show_nat A"
proof -
  have caught: ?thesis
    if "determineExactScore_body predicted teams goalsHome goalsAway = Inl e" for e
  proof -
    from that have "determineExactScore predicted teams goalsHome goalsAway =
        show_nat 1 @ ''-'' @ show_nat 1"
      by (simp add: determineExactScore_def show_nat.simps)
    then show ?thesis by (intro exI [of _ 1]) simp
  qed
  show ?thesis
  proof (cases "home_average teams")
    case (Inl e)
    then have "determineExactScore_body predicted teams goalsHome goalsAway = Inl e"
      by (simp add: determineExactScore_body_def home_average_def)
    then show ?thesis by (rule caught)
  next
    case h: (Inr h)
    show ?thesis
    proof (cases "away_average teams")
      case (Inl e)
      then have "determineExactScore_body predicted teams goalsHome goalsAway = Inl e"
        using h by (simp add: determineExactScore_body_def home_average_def away_average_def)
      then show ?thesis by (rule caught)
    next
      case a: (Inr a)
      from h a assms have "integral (Math_round h)" "integral (Math_round a)"
        by (simp_all add: integral_Math_round)
      from exact_goals_printed [OF this, of predicted] obtain H A where
        HA: "H \<le> 4" "A \<le> 3" and
        g: "exact_goals predicted (Math_round h) (Math_round a) = (Fin (of_nat H), Fin (of_nat A))"
        by blast
      have "determineExactScore predicted teams goalsHome goalsAway =
          show_nat H @ ''-'' @ show_nat A"
        using h a
        by (simp add: determineExactScore_def determineExactScore_body_def home_average_def
            away_average_def g Number_toString_nat del: Number_toString.simps)
      with HA show ?thesis by blast
    qed
  qed
qed

section \<open>Properties of the handler\<close>

lemma length_insort_row: "length (insort_row cmp x ys) = Suc (length ys)"
  by (induction ys) auto

lemma length_sort_rows: "length (sort_rows cmp rows) = length rows"
  unfolding sort_rows_def by (induction rows) (auto simp: length_insort_row)

lemma length_map_filter_le: "length (List.map_filter f xs) \<le> length xs"
  by (induction xs) (auto simp: List.map_filter_simps split: option.splits)

lemma fetched_rows_le:
  "length (List.map_filter g (map f (take 25 xs))) \<le> 25"
  "length (List.map_filter g (map f (take 25 xs))) \<le> length xs"
  using length_map_filter_le [of g "map f (take 25 xs)"] by simp_all

lemma handler_body_cases:
  assumes "handler_body up ev = Inr (r, ids)"
  shows "length ids \<le> 25 \<and>
         (\<forall>d n ps. body r = PredictionsBody d n ps \<longrightarrow> n = length ps \<and> length ps \<le> 25)"
  using assms
  by (auto simp: handler_body_def Let_def length_sort_rows fetched_rows_le
      split: if_splits sum.splits)

text \<open>
  C9. Whatever the request and whatever the upstream service answers, predictions are
  requested for at most 25 fixtures, and a response that carries a predictions list has at
  most 25 entries in it, \<^verbatim>\<open>total_matches\<close> being their number. When the request gets
  as far as the selection, the fixtures requested are the first 25 of the selected ones.
\<close>

theorem handler_at_most_25:
  "length (snd (handler up ev)) \<le> 25
   \<and> (\<forall>d n ps. body (fst (handler up ev)) = PredictionsBody d n ps \<longrightarrow>
         n = length ps \<and> length ps \<le> 25)
   \<and> (httpMethod ev \<noteq> ''OPTIONS'' \<and> valid_date (last (split_on CHR ''/'' (path ev))) \<and>
      api_fixtures up (last (split_on CHR ''/'' (path ev))) = Inr fixtures \<and> fixtures \<noteq> [] \<longrightarrow>
        snd (handler up ev) = map fx_id (take 25 (importantFixtures fixtures)))"
proof (intro conjI)
  show "length (snd (handler up ev)) \<le> 25"
    using handler_body_cases [of up ev]
    by (auto simp: handler_def split: sum.splits)
  show "\<forall>d n ps. body (fst (handler up ev)) = PredictionsBody d n ps \<longrightarrow>
         n = length ps \<and> length ps \<le> 25"
    using handler_body_cases [of up ev]
    by (fastforce simp: handler_def split: sum.splits if_splits)
  show "httpMethod ev \<noteq> ''OPTIONS'' \<and> valid_date (last (split_on CHR ''/'' (path ev))) \<and>
      api_fixtures up (last (split_on CHR ''/'' (path ev))) = Inr fixtures \<and> fixtures \<noteq> [] \<longrightarrow>
        snd (handler up ev) = map fx_id (take 25 (importantFixtures fixtures))"
    by (simp add: handler_def handler_body_def Let_def)
qed

lemma example_event_date:
  "last (split_on CHR ''/'' (path example_event)) = ''2026-01-15''"
  by (simp add: example_event_def)

lemma example_selected: "map fx_id (importantFixtures example_fixtures) = [1..30]"
  by code_simp

theorem handler_at_most_25_witness:
  "httpMethod example_event \<noteq> ''OPTIONS'' \<and>
   valid_date (last (split_on CHR ''/'' (path example_event))) \<and>
   api_fixtures example_upstream (last (split_on CHR ''/'' (path example_event))) =
     Inr example_fixtures \<and>
   example_fixtures \<noteq> [] \<and>
   length (importantFixtures example_fixtures) = 30 \<and>
   snd (handler example_upstream example_event) = [1..25] \<and>
   (\<exists>d n ps. body (fst (handler example_upstream example_event)) = PredictionsBody d n ps \<and>
      n = length ps \<and> length ps \<le> 25)"
proof -
  have m: "httpMethod example_event \<noteq> ''OPTIONS''"
    by (simp add: example_event_def)
  have v: "valid_date (last (split_on CHR ''/'' (path example_event)))"
    unfolding example_event_date by (simp add: is_digit_def)
  have f: "api_fixtures example_upstream (last (split_on CHR ''/'' (path example_event))) =
      Inr example_fixtures"
    by (simp add: example_upstream_def)
  have n: "example_fixtures \<noteq> []"
    by (simp add: example_fixtures_def upto.simps)
  have l: "length (importantFixtures example_fixtures) = 30"
    using arg_cong [OF example_selected, of length] by simp
  have t: "take 25 [1..30] = [1..25::int]"
    by code_simp
  obtain d k ps where b: "body (fst (handler example_upstream example_event)) = PredictionsBody d k ps"
    using m v f n by (simp add: handler_def handler_body_def Let_def)
  from handler_at_most_25 [of example_upstream example_event example_fixtures] m v f n b
  have "snd (handler example_upstream example_event) =
      map fx_id (take 25 (importantFixtures example_fixtures))"
    and "k = length ps \<and> length ps \<le> 25"
    by blast+
  then show ?thesis
    using m v f n l b t by (simp add: take_map [symmetric] example_selected)
qed

end
